theory Spec2Isabelle
  imports Main "HOL-Library.Sublist" "HOL-Library.Multiset"
begin

section \<open>JavaScript string and array primitives used by the plugin\<close>

text \<open>
  A string is well-formed Unicode text, held as the list of the bytes of its UTF-8 form (a
  literal such as \<open>''tag/''\<close> is its own UTF-8 form). Equality, concatenation, splitting,
  prefix tests, replacement and trimming give the same text on this form as the JavaScript
  operations give on the UTF-16 form. \<open>split_js s sep\<close> is \<open>s.split(sep)\<close>: the text is scanned
  from the left, every occurrence of the separator closes a component and the scan resumes
  behind it. The plugin only splits on the non-empty separators \<open>-\<close>, \<open>/\<close> and \<open>---\<close>; for
  the empty separator the model returns the single bytes, a case the plugin never reaches.
\<close>

function split_from :: "string \<Rightarrow> string \<Rightarrow> string \<Rightarrow> string list" where
  "split_from sep acc [] = [rev acc]"
| "split_from sep acc (c # cs) =
     (if sep \<noteq> [] \<and> prefix sep (c # cs)
      then rev acc # split_from sep [] (drop (length sep) (c # cs))
      else split_from sep (c # acc) cs)"
  by pat_completeness auto
termination
  by (relation "measure (\<lambda>(sep, acc, s). length s)") auto

definition split_js :: "string \<Rightarrow> string \<Rightarrow> string list" where
  "split_js s sep = (if sep = [] then map (\<lambda>c. [c]) s else split_from sep [] s)"

text \<open>\<open>xs[i]\<close> on an array: \<open>undefined\<close> (here \<open>None\<close>) outside the array.\<close>

definition nth_opt :: "'a list \<Rightarrow> nat \<Rightarrow> 'a option" where
  "nth_opt xs i = (if i < length xs then Some (xs ! i) else None)"

text \<open>A value inside a template literal: \<open>undefined\<close> is rendered as the text \<open>undefined\<close>.\<close>

definition str_of :: "string option \<Rightarrow> string" where
  "str_of v = (case v of None \<Rightarrow> ''undefined'' | Some s \<Rightarrow> s)"

text \<open>\<open>xs.join(sep)\<close>; used to state properties of \<open>split_js\<close>.\<close>

fun join_js :: "string \<Rightarrow> string list \<Rightarrow> string" where
  "join_js sep [] = []"
| "join_js sep [x] = x"
| "join_js sep (x # y # ys) = x @ sep @ join_js sep (y # ys)"

text \<open>
  \<open>s.trim()\<close> removes the white space and the line terminators of JavaScript from both ends:
  U+0009 to U+000D, U+0020, U+00A0, U+1680, U+2000 to U+200A, U+2028, U+2029, U+202F,
  U+205F, U+3000 and U+FEFF. \<open>whiteSpace\<close> lists their UTF-8 forms; none of them ends
  inside, or starts with the end of, another character.
\<close>

definition whiteSpace :: "string list" where
  "whiteSpace =
     [[CHR 0x09], [CHR 0x0A], [CHR 0x0B], [CHR 0x0C], [CHR 0x0D], [CHR 0x20],
      [CHR 0xC2, CHR 0xA0],
      [CHR 0xE1, CHR 0x9A, CHR 0x80],
      [CHR 0xE2, CHR 0x80, CHR 0x80], [CHR 0xE2, CHR 0x80, CHR 0x81],
      [CHR 0xE2, CHR 0x80, CHR 0x82], [CHR 0xE2, CHR 0x80, CHR 0x83],
      [CHR 0xE2, CHR 0x80, CHR 0x84], [CHR 0xE2, CHR 0x80, CHR 0x85],
      [CHR 0xE2, CHR 0x80, CHR 0x86], [CHR 0xE2, CHR 0x80, CHR 0x87],
      [CHR 0xE2, CHR 0x80, CHR 0x88], [CHR 0xE2, CHR 0x80, CHR 0x89],
      [CHR 0xE2, CHR 0x80, CHR 0x8A],
      [CHR 0xE2, CHR 0x80, CHR 0xA8], [CHR 0xE2, CHR 0x80, CHR 0xA9],
      [CHR 0xE2, CHR 0x80, CHR 0xAF],
      [CHR 0xE2, CHR 0x81, CHR 0x9F],
      [CHR 0xE3, CHR 0x80, CHR 0x80],
      [CHR 0xEF, CHR 0xBB, CHR 0xBF]]"

function dropLeading :: "string list \<Rightarrow> string \<Rightarrow> string" where
  "dropLeading ws s =
     (case find (\<lambda>w. w \<noteq> [] \<and> prefix w s) ws of
        None \<Rightarrow> s
      | Some w \<Rightarrow> dropLeading ws (drop (length w) s))"
  by pat_completeness auto
termination
proof (relation "measure (\<lambda>(ws, s). length s)")
  show "wf (measure (\<lambda>(ws, s). length s))" by simp
next
  fix ws :: "string list" and s w :: string
  assume "find (\<lambda>w. w \<noteq> [] \<and> prefix w s) ws = Some w"
  then have "w \<noteq> []" "prefix w s"
    by (auto simp: find_Some_iff)
  then show "((ws, drop (length w) s), (ws, s)) \<in> measure (\<lambda>(ws, s). length s)"
    by (cases s) (auto simp: prefix_def)
qed

declare dropLeading.simps [simp del]

definition trim_js :: "string \<Rightarrow> string" where
  "trim_js s = rev (dropLeading (map rev whiteSpace) (rev (dropLeading whiteSpace s)))"

text \<open>\<open>s.replace(pat, rep)\<close> with a string pattern: the first occurrence only.\<close>

fun replace_js :: "string \<Rightarrow> string \<Rightarrow> string \<Rightarrow> string" where
  "replace_js [] pat rep = (if pat = [] then rep else [])"
| "replace_js (c # cs) pat rep =
     (if prefix pat (c # cs) then rep @ drop (length pat) (c # cs)
      else c # replace_js cs pat rep)"

section \<open>Date conversion (main.ts, convertDateFormatToObsidian and convertDateFormatToGH)\<close>

text \<open>
  Both functions destructure the first three components of the split and rebuild a string
  with a template literal. Neither has a failing branch for a string argument.
\<close>

definition convertDateFormatToObsidian :: "string \<Rightarrow> string" where
  "convertDateFormatToObsidian dateStr =
     (let parts = split_js dateStr ''-'';
          year = nth_opt parts 0; month = nth_opt parts 1; day = nth_opt parts 2
      in str_of month @ ''/'' @ str_of day @ ''/'' @ str_of year)"

definition convertDateFormatToGH :: "string \<Rightarrow> string" where
  "convertDateFormatToGH dateStr =
     (let parts = split_js dateStr ''/'';
          month = nth_opt parts 0; day = nth_opt parts 1; year = nth_opt parts 2
      in str_of year @ ''-'' @ str_of month @ ''-'' @ str_of day)"

text \<open>
  main.ts holds an earlier copy of the two functions (its lines 20 to 34), in which
  convertDateFormatToObsidian splits on the slash like convertDateFormatToGH. The download
  and the upload modelled below belong to the later copy, which is the one above.
\<close>

definition convertDateFormatToObsidian_first :: "string \<Rightarrow> string" where
  "convertDateFormatToObsidian_first dateStr =
     (let parts = split_js dateStr ''/'';
          year = nth_opt parts 0; month = nth_opt parts 1; day = nth_opt parts 2
      in str_of month @ ''/'' @ str_of day @ ''/'' @ str_of year)"

section \<open>Data of the plugin\<close>

text \<open>The plugin settings (interface OGDSettings) and their defaults.\<close>

record settings =
  articlesDir :: string
  makeMd :: bool
  owner :: string
  repo :: string
  blogPostCategory :: string
  draftLabel :: string
  tagLabelPrefix :: string
  seriesLabelPrefix :: string

definition DEFAULT_SETTINGS :: settings where
  "DEFAULT_SETTINGS = \<lparr>articlesDir = ''Blog'', makeMd = False, owner = [], repo = [],
     blogPostCategory = ''Blog Posts'', draftLabel = ''state/draft'',
     tagLabelPrefix = ''tag/'', seriesLabelPrefix = ''series/''\<rparr>"

text \<open>
  The parsed metadata block of a document. The code reads the keys \<open>slug\<close>, \<open>description\<close>,
  \<open>published\<close>, \<open>tags\<close> and \<open>series\<close>; a missing key is \<open>undefined\<close> (\<open>None\<close>). The key
  \<open>draft\<close> stands for the draft state a document may carry; no line of the upload reads it.
  Scalars are modelled as strings.
\<close>

record frontMatter =
  slug :: "string option"
  description :: "string option"
  published :: "string option"
  tags :: "string list option"
  series :: "string option"
  draft :: "bool option"

text \<open>JavaScript truthiness of an optional string: defined and not empty.\<close>

definition truthy :: "string option \<Rightarrow> bool" where
  "truthy v = (case v of None \<Rightarrow> False | Some s \<Rightarrow> s \<noteq> [])"

text \<open>
  \<open>parseYaml\<close> and \<open>stringifyYaml\<close> belong to the host application and are parameters of the
  model. A parser takes the text between the first two delimiters (\<open>undefined\<close> when there is
  no delimiter) and returns the mapping; \<open>None\<close> stands for a null result or an exception,
  both of which make the property access that follows throw.
\<close>

type_synonym parser = "string option \<Rightarrow> frontMatter option"
type_synonym printer = "frontMatter \<Rightarrow> string"

text \<open>A label and a category node of the remote repository, and the repository info.\<close>

record label =
  label_id :: string
  label_name :: string

record category =
  cat_id :: string
  cat_name :: string

record repoInfo =
  repo_id :: string
  discussionCategories :: "category list"
  repo_labels :: "label list"

text \<open>A remote discussion as returned by the client (the fields main.ts reads).\<close>

record gitHubPost =
  post_id :: string
  post_title :: string
  post_body :: string
  post_tags :: "string list option"
  post_series :: "string option"

text \<open>A markdown file of the vault together with its text.\<close>

record tfile =
  file_path :: string
  file_name :: string
  file_basename :: string
  file_content :: string

text \<open>An element of \<open>newFiles\<close> and \<open>existingFiles\<close>.\<close>

record entry =
  e_file :: tfile
  e_frontMatter :: frontMatter
  e_sections :: "string list"

section \<open>The GraphQL documents (graphql.ts and the two inline documents of main.ts)\<close>

datatype document =
    GET_REPOSITORY_INFO
  | CREATE_LABEL_MUTATION
  | CREATE_DISCUSSION_MUTATION
  | UPDATE_DISCUSSION_MUTATION
  | ADD_LABELS_TO_DISCUSSION
  | GetDiscussionLabels
  | RemoveLabels

text \<open>The variables each document declares in its header, with their declared types.\<close>

fun declaredVariables :: "document \<Rightarrow> (string \<times> string) list" where
  "declaredVariables GET_REPOSITORY_INFO = [(''owner'', ''String!''), (''name'', ''String!'')]"
| "declaredVariables CREATE_LABEL_MUTATION =
     [(''repositoryId'', ''ID!''), (''name'', ''String!''), (''description'', ''String''),
      (''color'', ''String!'')]"
| "declaredVariables CREATE_DISCUSSION_MUTATION =
     [(''repositoryId'', ''ID!''), (''categoryId'', ''ID!''), (''title'', ''String!''),
      (''body'', ''String!'')]"
| "declaredVariables UPDATE_DISCUSSION_MUTATION =
     [(''discussionId'', ''ID!''), (''title'', ''String!''), (''body'', ''String!'')]"
| "declaredVariables ADD_LABELS_TO_DISCUSSION =
     [(''labelableId'', ''ID!''), (''labelIds'', ''[ID!]!'')]"
| "declaredVariables GetDiscussionLabels = [(''id'', ''ID!'')]"
| "declaredVariables RemoveLabels = [(''labelableId'', ''ID!''), (''labelIds'', ''[ID!]!'')]"

text \<open>A declared type that ends in \<open>!\<close> is non-nullable: the variable is required.\<close>

definition requiredVariables :: "document \<Rightarrow> string list" where
  "requiredVariables d =
     map fst (filter (\<lambda>(v, t). t \<noteq> [] \<and> last t = CHR ''!'') (declaredVariables d))"

fun isMutation :: "document \<Rightarrow> bool" where
  "isMutation GET_REPOSITORY_INFO = False"
| "isMutation GetDiscussionLabels = False"
| "isMutation CREATE_LABEL_MUTATION = True"
| "isMutation CREATE_DISCUSSION_MUTATION = True"
| "isMutation UPDATE_DISCUSSION_MUTATION = True"
| "isMutation ADD_LABELS_TO_DISCUSSION = True"
| "isMutation RemoveLabels = True"

text \<open>
  A request is a document with its variables object; the value of a key may be
  \<open>undefined\<close>. The remote end is a parameter: it answers a request, given the requests made
  before, with an error (transport failure or an \<open>errors\<close> payload) or with data.
\<close>

datatype jsval = JStr string | JList "string list" | JUndefined

type_synonym request = "document \<times> (string \<times> jsval) list"

datatype response =
    RepoInfoR repoInfo
  | LabelCreated string
  | DiscussionCreated string
  | DiscussionLabels "label list"
  | OtherData

datatype error = RequestError string | TypeError

type_synonym server = "request list \<Rightarrow> request \<Rightarrow> error + response"

text \<open>
  executeGitHubGraphQL posts the request and returns the data or throws. The model threads
  the list of requests made so far; the bearer token is left out.
\<close>

definition executeGitHubGraphQL ::
  "server \<Rightarrow> document \<Rightarrow> (string \<times> jsval) list \<Rightarrow> request list
    \<Rightarrow> request list \<times> (error + response)" where
  "executeGitHubGraphQL srv query vars log = (log @ [(query, vars)], srv log (query, vars))"

section \<open>A JavaScript Map as an insertion-ordered association list\<close>

fun map_set :: "('k \<times> 'v) list \<Rightarrow> 'k \<Rightarrow> 'v \<Rightarrow> ('k \<times> 'v) list" where
  "map_set [] k v = [(k, v)]"
| "map_set ((k', v') # m) k v =
     (if k' = k then (k', v) # m else (k', v') # map_set m k v)"

text \<open>\<open>new Map(pairs)\<close>.\<close>

definition new_Map :: "('k \<times> 'v) list \<Rightarrow> ('k \<times> 'v) list" where
  "new_Map pairs = foldl (\<lambda>m (k, v). map_set m k v) [] pairs"

section \<open>Label creation (main.ts, createOrUpdateLabels)\<close>

text \<open>
  \<open>labelIds\<close> is the map under construction. A name found in \<open>existingLabels\<close> takes its id
  from there; any other name is created remotely with the variables \<open>repositoryId\<close>, \<open>name\<close>
  and \<open>description\<close>. \<open>existingLabels\<close> is only read.
\<close>

definition createLabelVariables :: "string \<Rightarrow> string \<Rightarrow> (string \<times> jsval) list" where
  "createLabelVariables repoId labelName =
     [(''repositoryId'', JStr repoId),
      (''name'', JStr labelName),
      (''description'',
         if prefix ''series/'' labelName then JStr (replace_js labelName ''series/'' [])
         else JUndefined)]"

fun createOrUpdateLabels_loop ::
  "server \<Rightarrow> string \<Rightarrow> (string \<times> string) list \<Rightarrow> string list \<Rightarrow> (string \<times> string) list
    \<Rightarrow> request list \<Rightarrow> request list \<times> (error + (string \<times> string) list)" where
  "createOrUpdateLabels_loop srv repoId existingLabels [] labelIds log = (log, Inr labelIds)"
| "createOrUpdateLabels_loop srv repoId existingLabels (labelName # rest) labelIds log =
     (case map_of existingLabels labelName of
        Some i \<Rightarrow>
          createOrUpdateLabels_loop srv repoId existingLabels rest (map_set labelIds labelName i) log
      | None \<Rightarrow>
          (case executeGitHubGraphQL srv CREATE_LABEL_MUTATION
                  (createLabelVariables repoId labelName) log of
             (log', Inl e) \<Rightarrow> (log', Inl e)
           | (log', Inr (LabelCreated i)) \<Rightarrow>
               createOrUpdateLabels_loop srv repoId existingLabels rest
                 (map_set labelIds labelName i) log'
           | (log', Inr _) \<Rightarrow> (log', Inl TypeError)))"

definition createOrUpdateLabels ::
  "server \<Rightarrow> string \<Rightarrow> (string \<times> string) list \<Rightarrow> string list
    \<Rightarrow> request list \<Rightarrow> request list \<times> (error + (string \<times> string) list)" where
  "createOrUpdateLabels srv repoId existingLabels labelNames log =
     createOrUpdateLabels_loop srv repoId existingLabels labelNames [] log"

section \<open>Labels of a local document and labels to remove (main.ts, upload)\<close>

text \<open>
  The list \<open>labels\<close> built for a new file and for an existing file: one label per tag with
  the tag prefix, then the series with the series prefix. Nothing else is rendered.
\<close>

definition uploadLabels :: "settings \<Rightarrow> frontMatter \<Rightarrow> string list" where
  "uploadLabels st fm =
     (case tags fm of None \<Rightarrow> [] | Some ts \<Rightarrow> map (\<lambda>tag. tagLabelPrefix st @ tag) ts) @
     (if truthy (series fm) then [seriesLabelPrefix st @ str_of (series fm)] else [])"

text \<open>The ids selected for removal among the labels the discussion carries.\<close>

definition existingLabelsToRemove :: "settings \<Rightarrow> label list \<Rightarrow> string list" where
  "existingLabelsToRemove st nodes =
     map label_id
       (filter (\<lambda>l. prefix (tagLabelPrefix st) (label_name l) \<or>
                    prefix (seriesLabelPrefix st) (label_name l)) nodes)"

section \<open>Matching local files with remote discussions (main.ts, upload)\<close>

text \<open>
  \<open>ghArticles.find(post => parseYaml(post.body.split("---")[1]).slug === frontMatter.slug)\<close>:
  the first post with the slug; the callback throws when a body does not parse.
\<close>

fun findExistingPost :: "parser \<Rightarrow> string option \<Rightarrow> gitHubPost list \<Rightarrow> error + gitHubPost option" where
  "findExistingPost parseYaml s [] = Inr None"
| "findExistingPost parseYaml s (post # posts) =
     (case parseYaml (nth_opt (split_js (post_body post) ''---'') 1) of
        None \<Rightarrow> Inl TypeError
      | Some postFrontMatter \<Rightarrow>
          if slug postFrontMatter = s then Inr (Some post)
          else findExistingPost parseYaml s posts)"

text \<open>The loop over the markdown files that fills \<open>newFiles\<close> and \<open>existingFiles\<close>.\<close>

fun classifyFiles ::
  "parser \<Rightarrow> gitHubPost list \<Rightarrow> tfile list \<Rightarrow> entry list \<Rightarrow> entry list
    \<Rightarrow> error + (entry list \<times> entry list)" where
  "classifyFiles parseYaml ghArticles [] newFiles existingFiles = Inr (newFiles, existingFiles)"
| "classifyFiles parseYaml ghArticles (file # files) newFiles existingFiles =
     (let sections = split_js (file_content file) ''---'' in
      if length sections < 3 then classifyFiles parseYaml ghArticles files newFiles existingFiles
      else
        (case parseYaml (nth_opt sections 1) of
           None \<Rightarrow> Inl TypeError
         | Some fm \<Rightarrow>
             if \<not> truthy (slug fm)
             then classifyFiles parseYaml ghArticles files newFiles existingFiles
             else
               (case findExistingPost parseYaml (slug fm) ghArticles of
                  Inl e \<Rightarrow> Inl e
                | Inr (Some existingPost) \<Rightarrow>
                    classifyFiles parseYaml ghArticles files newFiles
                      (existingFiles @ [\<lparr>e_file = file, e_frontMatter = fm, e_sections = sections\<rparr>])
                | Inr None \<Rightarrow>
                    classifyFiles parseYaml ghArticles files
                      (newFiles @ [\<lparr>e_file = file, e_frontMatter = fm, e_sections = sections\<rparr>])
                      existingFiles)))"

text \<open>The files under the articles directory, without the folder note when makeMd is set.\<close>

definition selectMarkdownFiles :: "settings \<Rightarrow> tfile list \<Rightarrow> tfile list" where
  "selectMarkdownFiles st files =
     (let markdownFiles = filter (\<lambda>f. prefix (articlesDir st @ ''/'') (file_path f)) files in
      if makeMd st
      then (let filename = last (split_js (articlesDir st) ''/'') @ ''.md''
            in filter (\<lambda>f. file_name f \<noteq> filename) markdownFiles)
      else markdownFiles)"

section \<open>The three confirmed steps of the upload\<close>

text \<open>
  The body sent for a document: a metadata block printed from \<open>slug\<close>, \<open>description\<close> and the
  converted \<open>published\<close> of the local metadata, then the trimmed third section of the local
  text. \<open>sections[2]\<close> or \<open>published\<close> being \<open>undefined\<close> throws.
\<close>

definition discussionBody :: "printer \<Rightarrow> frontMatter \<Rightarrow> string list \<Rightarrow> error + string" where
  "discussionBody stringifyYaml fm sections =
     (case nth_opt sections 2 of
        None \<Rightarrow> Inl TypeError
      | Some s2 \<Rightarrow>
          (let body = trim_js s2 in
           case published fm of
             None \<Rightarrow> Inl TypeError
           | Some p \<Rightarrow>
               (let githubFrontMatter =
                      \<lparr>slug = slug fm, description = description fm,
                       published = Some (convertDateFormatToGH p),
                       tags = None, series = None, draft = None\<rparr>
                in Inr (''---'' @ [CHR 0x0A] @ stringifyYaml githubFrontMatter @
                        ''---'' @ [CHR 0x0A] @ body))))"

text \<open>Creating the discussion of one new file: labels, discussion, label attachment.\<close>

definition createDiscussionOfFile ::
  "server \<Rightarrow> printer \<Rightarrow> settings \<Rightarrow> string \<Rightarrow> string \<Rightarrow> (string \<times> string) list \<Rightarrow> entry
    \<Rightarrow> request list \<Rightarrow> request list \<times> (error + unit)" where
  "createDiscussionOfFile srv stringifyYaml st repoId categoryId existingLabels e log =
     (case nth_opt (e_sections e) 2 of
        None \<Rightarrow> (log, Inl TypeError)
      | Some s2 \<Rightarrow>
          (case createOrUpdateLabels srv repoId existingLabels
                  (uploadLabels st (e_frontMatter e)) log of
             (log1, Inl err) \<Rightarrow> (log1, Inl err)
           | (log1, Inr labelIds) \<Rightarrow>
               (case discussionBody stringifyYaml (e_frontMatter e) (e_sections e) of
                  Inl err \<Rightarrow> (log1, Inl err)
                | Inr body \<Rightarrow>
                    (case executeGitHubGraphQL srv CREATE_DISCUSSION_MUTATION
                            [(''repositoryId'', JStr repoId), (''categoryId'', JStr categoryId),
                             (''title'', JStr (file_basename (e_file e))), (''body'', JStr body)]
                            log1 of
                       (log2, Inl err) \<Rightarrow> (log2, Inl err)
                     | (log2, Inr (DiscussionCreated did)) \<Rightarrow>
                         (case executeGitHubGraphQL srv ADD_LABELS_TO_DISCUSSION
                                 [(''labelableId'', JStr did),
                                  (''labelIds'', JList (map snd labelIds))] log2 of
                            (log3, Inl err) \<Rightarrow> (log3, Inl err)
                          | (log3, Inr _) \<Rightarrow> (log3, Inr ()))
                     | (log2, Inr _) \<Rightarrow> (log2, Inl TypeError)))))"

fun createDiscussions ::
  "server \<Rightarrow> printer \<Rightarrow> settings \<Rightarrow> string \<Rightarrow> string \<Rightarrow> (string \<times> string) list \<Rightarrow> entry list
    \<Rightarrow> request list \<Rightarrow> request list \<times> (error + unit)" where
  "createDiscussions srv stringifyYaml st repoId categoryId existingLabels [] log = (log, Inr ())"
| "createDiscussions srv stringifyYaml st repoId categoryId existingLabels (e # es) log =
     (case createDiscussionOfFile srv stringifyYaml st repoId categoryId existingLabels e log of
        (log', Inl err) \<Rightarrow> (log', Inl err)
      | (log', Inr _) \<Rightarrow>
          createDiscussions srv stringifyYaml st repoId categoryId existingLabels es log')"

text \<open>
  Labels of one matched pair: create missing labels, read the labels of the discussion,
  remove those with one of the two prefixes, add the labels of the document.
\<close>

definition updateLabelsOfPost ::
  "server \<Rightarrow> settings \<Rightarrow> string \<Rightarrow> (string \<times> string) list \<Rightarrow> frontMatter \<Rightarrow> gitHubPost
    \<Rightarrow> request list \<Rightarrow> request list \<times> (error + unit)" where
  "updateLabelsOfPost srv st repoId existingLabels fm existingPost log =
     (case createOrUpdateLabels srv repoId existingLabels (uploadLabels st fm) log of
        (log1, Inl err) \<Rightarrow> (log1, Inl err)
      | (log1, Inr labelIds) \<Rightarrow>
          (case executeGitHubGraphQL srv GetDiscussionLabels
                  [(''id'', JStr (post_id existingPost))] log1 of
             (log2, Inl err) \<Rightarrow> (log2, Inl err)
           | (log2, Inr (DiscussionLabels nodes)) \<Rightarrow>
               (case (if existingLabelsToRemove st nodes \<noteq> []
                      then executeGitHubGraphQL srv RemoveLabels
                             [(''labelableId'', JStr (post_id existingPost)),
                              (''labelIds'', JList (existingLabelsToRemove st nodes))] log2
                      else (log2, Inr OtherData)) of
                  (log3, Inl err) \<Rightarrow> (log3, Inl err)
                | (log3, Inr _) \<Rightarrow>
                    (if labelIds \<noteq> []
                     then (case executeGitHubGraphQL srv ADD_LABELS_TO_DISCUSSION
                                  [(''labelableId'', JStr (post_id existingPost)),
                                   (''labelIds'', JList (map snd labelIds))] log3 of
                             (log4, Inl err) \<Rightarrow> (log4, Inl err)
                           | (log4, Inr _) \<Rightarrow> (log4, Inr ()))
                     else (log3, Inr ())))
           | (log2, Inr _) \<Rightarrow> (log2, Inl TypeError)))"

fun updateLabels ::
  "server \<Rightarrow> parser \<Rightarrow> settings \<Rightarrow> string \<Rightarrow> (string \<times> string) list \<Rightarrow> gitHubPost list
    \<Rightarrow> entry list \<Rightarrow> request list \<Rightarrow> request list \<times> (error + unit)" where
  "updateLabels srv parseYaml st repoId existingLabels ghArticles [] log = (log, Inr ())"
| "updateLabels srv parseYaml st repoId existingLabels ghArticles (e # es) log =
     (case findExistingPost parseYaml (slug (e_frontMatter e)) ghArticles of
        Inl err \<Rightarrow> (log, Inl err)
      | Inr None \<Rightarrow> updateLabels srv parseYaml st repoId existingLabels ghArticles es log
      | Inr (Some existingPost) \<Rightarrow>
          (case updateLabelsOfPost srv st repoId existingLabels (e_frontMatter e) existingPost log of
             (log', Inl err) \<Rightarrow> (log', Inl err)
           | (log', Inr _) \<Rightarrow>
               updateLabels srv parseYaml st repoId existingLabels ghArticles es log'))"

text \<open>Content of one matched pair: the update carries the title and the body built above.\<close>

definition updateContentOfPost ::
  "server \<Rightarrow> printer \<Rightarrow> entry \<Rightarrow> gitHubPost \<Rightarrow> request list \<Rightarrow> request list \<times> (error + unit)" where
  "updateContentOfPost srv stringifyYaml e existingPost log =
     (case discussionBody stringifyYaml (e_frontMatter e) (e_sections e) of
        Inl err \<Rightarrow> (log, Inl err)
      | Inr body \<Rightarrow>
          (case executeGitHubGraphQL srv UPDATE_DISCUSSION_MUTATION
                  [(''discussionId'', JStr (post_id existingPost)),
                   (''title'', JStr (file_basename (e_file e))), (''body'', JStr body)] log of
             (log', Inl err) \<Rightarrow> (log', Inl err)
           | (log', Inr _) \<Rightarrow> (log', Inr ())))"

fun updateContents ::
  "server \<Rightarrow> parser \<Rightarrow> printer \<Rightarrow> gitHubPost list \<Rightarrow> entry list
    \<Rightarrow> request list \<Rightarrow> request list \<times> (error + unit)" where
  "updateContents srv parseYaml stringifyYaml ghArticles [] log = (log, Inr ())"
| "updateContents srv parseYaml stringifyYaml ghArticles (e # es) log =
     (case findExistingPost parseYaml (slug (e_frontMatter e)) ghArticles of
        Inl err \<Rightarrow> (log, Inl err)
      | Inr None \<Rightarrow> updateContents srv parseYaml stringifyYaml ghArticles es log
      | Inr (Some existingPost) \<Rightarrow>
          (case updateContentOfPost srv stringifyYaml e existingPost log of
             (log', Inl err) \<Rightarrow> (log', Inl err)
           | (log', Inr _) \<Rightarrow> updateContents srv parseYaml stringifyYaml ghArticles es log'))"

section \<open>The upload handler (main.ts, upload)\<close>

text \<open>
  The handler returns after opening up to three confirmation dialogs; each confirmed step
  then runs on its own. The model takes the three answers and runs the confirmed steps in
  the order the dialogs are created. The result of checkSettings and the discussions (or
  the error) returned by fetchGithubDiscussions are inputs. An exception before the dialogs
  is caught by the handler; an exception inside a step ends that step only.
\<close>

record answers =
  confirmCreate :: bool
  confirmLabels :: bool
  confirmContent :: bool

datatype outcome =
    SettingsNotPassing
  | CategoryNotFound
  | Caught error
  | Prompted "(error + unit) option" "(error + unit) option" "(error + unit) option"

definition runStep ::
  "bool \<Rightarrow> (request list \<Rightarrow> request list \<times> (error + unit)) \<Rightarrow> request list
    \<Rightarrow> request list \<times> (error + unit) option" where
  "runStep confirmed step log =
     (if confirmed then (case step log of (log', r) \<Rightarrow> (log', Some r)) else (log, None))"

definition upload ::
  "server \<Rightarrow> parser \<Rightarrow> printer \<Rightarrow> settings \<Rightarrow> bool \<Rightarrow> error + gitHubPost list \<Rightarrow> tfile list
    \<Rightarrow> answers \<Rightarrow> request list \<Rightarrow> request list \<times> outcome" where
  "upload srv parseYaml stringifyYaml st passing fetched files ans log =
     (if \<not> passing then (log, SettingsNotPassing)
      else
        (case executeGitHubGraphQL srv GET_REPOSITORY_INFO
                [(''owner'', JStr (owner st)), (''name'', JStr (repo st))] log of
           (log1, Inl err) \<Rightarrow> (log1, Caught err)
         | (log1, Inr (RepoInfoR info)) \<Rightarrow>
             (let repoId = repo_id info;
                  categoryId = map_option cat_id
                     (find (\<lambda>cat. cat_name cat = blogPostCategory st) (discussionCategories info))
              in if \<not> truthy categoryId then (log1, CategoryNotFound)
                 else
                   (let existingLabels =
                          new_Map (map (\<lambda>l. (label_name l, label_id l)) (repo_labels info))
                    in case fetched of
                         Inl err \<Rightarrow> (log1, Caught err)
                       | Inr ghArticles \<Rightarrow>
                           (case classifyFiles parseYaml ghArticles
                                   (selectMarkdownFiles st files) [] [] of
                              Inl err \<Rightarrow> (log1, Caught err)
                            | Inr (newFiles, existingFiles) \<Rightarrow>
                                (case runStep (newFiles \<noteq> [] \<and> confirmCreate ans)
                                        (createDiscussions srv stringifyYaml st repoId
                                           (str_of categoryId) existingLabels newFiles) log1 of
                                   (log2, r1) \<Rightarrow>
                                     (case runStep (existingFiles \<noteq> [] \<and> confirmLabels ans)
                                             (updateLabels srv parseYaml st repoId existingLabels
                                                ghArticles existingFiles) log2 of
                                        (log3, r2) \<Rightarrow>
                                          (case runStep (existingFiles \<noteq> [] \<and> confirmContent ans)
                                                  (updateContents srv parseYaml stringifyYaml
                                                     ghArticles existingFiles) log3 of
                                             (log4, r3) \<Rightarrow> (log4, Prompted r1 r2 r3)))))))
         | (log1, Inr _) \<Rightarrow> (log1, Caught TypeError)))"

section \<open>Finding new discussions (main.ts, download)\<close>










text \<open>The request that creates the label \<open>n\<close>.\<close>

definition createRequest :: "string \<Rightarrow> string \<Rightarrow> request" where
  "createRequest repoId n = (CREATE_LABEL_MUTATION, createLabelVariables repoId n)"

section \<open>The requests of the label step and of the content step\<close>

text \<open>
  Names for the requests that \<open>updateLabelsOfPost\<close> and \<open>updateContentOfPost\<close> build, with
  the variables in the order of the source, and the label ids that a list of requests asks
  to remove (the \<open>labelIds\<close> of its removal requests).
\<close>

definition labelQuery :: "gitHubPost \<Rightarrow> request" where
  "labelQuery post = (GetDiscussionLabels, [(''id'', JStr (post_id post))])"

definition removeRequest :: "settings \<Rightarrow> gitHubPost \<Rightarrow> label list \<Rightarrow> request" where
  "removeRequest st post nodes =
     (RemoveLabels,
      [(''labelableId'', JStr (post_id post)),
       (''labelIds'', JList (existingLabelsToRemove st nodes))])"

definition addRequest :: "gitHubPost \<Rightarrow> (string \<times> string) list \<Rightarrow> request" where
  "addRequest post labelIds =
     (ADD_LABELS_TO_DISCUSSION,
      [(''labelableId'', JStr (post_id post)), (''labelIds'', JList (map snd labelIds))])"


fun removalIds :: "request \<Rightarrow> string list" where
  "removalIds (RemoveLabels, vars) =
     (case map_of vars ''labelIds'' of Some (JList ids) \<Rightarrow> ids | _ \<Rightarrow> [])"
| "removalIds (d, vars) = []"

definition removedLabelIds :: "request list \<Rightarrow> string list" where
  "removedLabelIds reqs = concat (map removalIds reqs)"

text \<open>The test the label step applies to the name of a label before removing it.\<close>

definition prefixed :: "settings \<Rightarrow> label \<Rightarrow> bool" where
  "prefixed st l =
     (prefix (tagLabelPrefix st) (label_name l) \<or> prefix (seriesLabelPrefix st) (label_name l))"

section \<open>Example data\<close>

text \<open>
  A vault with two documents that carry the same new tag, a repository with the default
  category and no label, and two discussions that share the slug of the first document.
  \<open>publishedFrontMatter\<close> is the metadata of the first document when it is not a draft,
  \<open>syncedNodes\<close> are the labels of a discussion that carries the label of that document and
  an unrelated one, and \<open>rewrittenPost\<close> is the first discussion with another body of the
  same slug. \<open>examplePrinter\<close> and \<open>exampleParser\<close> give the results of stringifyYaml and
  parseYaml on the plain mappings and blocks that occur in these examples. \<open>exampleServer\<close>
  answers the label query with the given labels and rejects a label creation it has seen
  before.
\<close>

definition exampleSettings :: settings where
  "exampleSettings = DEFAULT_SETTINGS\<lparr>owner := ''octo'', repo := ''blog''\<rparr>"

definition exampleFrontMatter :: frontMatter where
  "exampleFrontMatter = \<lparr>slug = Some ''a'', description = Some ''new'',
     published = Some ''01/02/2024'', tags = Some [''x''], series = None, draft = Some True\<rparr>"

definition publishedFrontMatter :: frontMatter where
  "publishedFrontMatter = exampleFrontMatter\<lparr>draft := Some False\<rparr>"

definition exampleNodes :: "label list" where
  "exampleNodes = [\<lparr>label_id = ''L3'', label_name = ''area/infra''\<rparr>,
                   \<lparr>label_id = ''L2'', label_name = ''tag/x''\<rparr>,
                   \<lparr>label_id = ''L1'', label_name = ''state/draft''\<rparr>]"

definition syncedNodes :: "label list" where
  "syncedNodes = [\<lparr>label_id = ''L3'', label_name = ''area/infra''\<rparr>,
                  \<lparr>label_id = ''L2'', label_name = ''tag/x''\<rparr>]"

definition exampleRepoInfo :: repoInfo where
  "exampleRepoInfo = \<lparr>repo_id = ''R1'',
     discussionCategories = [\<lparr>cat_id = ''C1'', cat_name = ''Blog Posts''\<rparr>],
     repo_labels = []\<rparr>"

definition exampleServer :: "label list \<Rightarrow> server" where
  "exampleServer nodes log req =
     (case fst req of
        GET_REPOSITORY_INFO \<Rightarrow> Inr (RepoInfoR exampleRepoInfo)
      | CREATE_LABEL_MUTATION \<Rightarrow>
          (if req \<in> set log then Inl (RequestError ''Name has already been taken'')
           else Inr (LabelCreated (''L'' @ replicate (length log) (CHR ''+''))))
      | CREATE_DISCUSSION_MUTATION \<Rightarrow> Inr (DiscussionCreated ''D9'')
      | GetDiscussionLabels \<Rightarrow> Inr (DiscussionLabels nodes)
      | _ \<Rightarrow> Inr OtherData)"

definition examplePrinter :: printer where
  "examplePrinter fm =
     ''slug: '' @ str_of (slug fm) @ ''\<newline>'' @
     ''description: '' @ str_of (description fm) @ ''\<newline>'' @
     ''published: '' @ str_of (published fm) @ ''\<newline>''"

definition exampleParser :: parser where
  "exampleParser block =
     (case block of
        None \<Rightarrow> None
      | Some text \<Rightarrow>
          map_of
            [(''\<newline>slug: a\<newline>description: new\<newline>published: 01/02/2024\<newline>tags: [x]\<newline>draft: true\<newline>'',
              exampleFrontMatter),
             (''\<newline>slug: a\<newline>description: old\<newline>published: 2024-01-02\<newline>'',
              \<lparr>slug = Some ''a'', description = Some ''old'', published = Some ''2024-01-02'',
               tags = None, series = None, draft = None\<rparr>),
             (''\<newline>slug: a\<newline>'',
              \<lparr>slug = Some ''a'', description = None, published = None,
               tags = None, series = None, draft = None\<rparr>),
             (''\<newline>slug: b\<newline>published: 01/03/2024\<newline>tags: [x]\<newline>'',
              \<lparr>slug = Some ''b'', description = None, published = Some ''01/03/2024'',
               tags = Some [''x''], series = None, draft = None\<rparr>)]
            text)"

definition exampleFile :: tfile where
  "exampleFile = \<lparr>file_path = ''Blog/Hello.md'', file_name = ''Hello.md'',
     file_basename = ''Hello'',
     file_content = ''---\<newline>slug: a\<newline>description: new\<newline>published: 01/02/2024\<newline>tags: [x]\<newline>draft: true\<newline>---\<newline>new text\<newline>''\<rparr>"

definition secondFile :: tfile where
  "secondFile = \<lparr>file_path = ''Blog/World.md'', file_name = ''World.md'',
     file_basename = ''World'',
     file_content = ''---\<newline>slug: b\<newline>published: 01/03/2024\<newline>tags: [x]\<newline>---\<newline>more text''\<rparr>"

definition examplePost :: gitHubPost where
  "examplePost = \<lparr>post_id = ''D1'', post_title = ''Hello'',
     post_body = ''---\<newline>slug: a\<newline>description: old\<newline>published: 2024-01-02\<newline>---\<newline>old text'',
     post_tags = Some [''x''], post_series = None\<rparr>"





definition otherCategorySettings :: settings where
  "otherCategorySettings = exampleSettings\<lparr>blogPostCategory := ''News''\<rparr>"

definition allAnswers :: answers where
  "allAnswers = \<lparr>confirmCreate = True, confirmLabels = True, confirmContent = True\<rparr>"


section \<open>Properties of splitting\<close>

lemma split_from_not_Nil: "split_from sep acc s \<noteq> []"
  by (induction sep acc s rule: split_from.induct) auto

lemma join_js_Cons: "xs \<noteq> [] \<Longrightarrow> join_js sep (x # xs) = x @ sep @ join_js sep xs"
  by (cases xs) auto

lemma join_split_from: "join_js sep (split_from sep acc s) = rev acc @ s"
proof (induction sep acc s rule: split_from.induct)
  case (1 sep acc)
  show ?case by simp
next
  case (2 sep acc c cs)
  show ?case
  proof (cases "sep \<noteq> [] \<and> prefix sep (c # cs)")
    case True
    then obtain zs where zs: "c # cs = sep @ zs"
      by (auto elim: prefixE)
    then have d: "drop (length sep) (c # cs) = zs"
      by simp
    from True 2(1) d have ih: "join_js sep (split_from sep [] zs) = zs"
      by simp
    from True d have "split_from sep acc (c # cs) = rev acc # split_from sep [] zs"
      by simp
    then have "join_js sep (split_from sep acc (c # cs)) = rev acc @ sep @ zs"
      by (simp add: join_js_Cons split_from_not_Nil ih del: split_from.simps)
    with zs show ?thesis
      by simp
  next
    case False
    with 2(2) show ?thesis by auto
  qed
qed

lemma join_split_js: "sep \<noteq> [] \<Longrightarrow> join_js sep (split_js s sep) = s"
  by (simp add: split_js_def join_split_from)

lemma split_from_no_sep: "ch \<notin> set s \<Longrightarrow> split_from [ch] acc s = [rev acc @ s]"
  by (induction s arbitrary: acc) auto

lemma split_from_upto_sep:
  "ch \<notin> set a \<Longrightarrow> split_from [ch] acc (a @ ch # rest) = (rev acc @ a) # split_from [ch] [] rest"
  by (induction a arbitrary: acc) auto

lemma split_from_components: "x \<in> set (split_from [ch] acc s) \<Longrightarrow> ch \<notin> set acc \<Longrightarrow> ch \<notin> set x"
  by (induction "[ch]" acc s arbitrary: x rule: split_from.induct) (auto split: if_splits)

lemma split_js_components: "x \<in> set (split_js s [ch]) \<Longrightarrow> ch \<notin> set x"
  using split_from_components [of x ch "[]" s] by (simp add: split_js_def)

lemma split_js_join3:
  assumes "ch \<notin> set a" "ch \<notin> set b" "ch \<notin> set c"
  shows "split_js (a @ [ch] @ b @ [ch] @ c) [ch] = [a, b, c]"
  using assms by (simp add: split_js_def split_from_upto_sep split_from_no_sep)

section \<open>Properties of the insertion-ordered map\<close>

lemma map_fst_map_set:
  "map fst (map_set m k v) = (if k \<in> set (map fst m) then map fst m else map fst m @ [k])"
proof (induction m)
  case Nil
  show ?case by simp
next
  case (Cons p m)
  obtain k' v' where p: "p = (k', v')" by (cases p)
  have "k \<in> fst ` set m \<or> k \<notin> fst ` set m" by blast
  with Cons p show ?case by (cases "k' = k") auto
qed

lemma map_set_keys: "fst ` set (map_set m k v) = insert k (fst ` set m)"
proof -
  have "set (map fst (map_set m k v)) = insert k (set (map fst m))"
    unfolding map_fst_map_set by auto
  then show ?thesis by simp
qed


section \<open>Claims about the date conversion\<close>

text \<open>
  The later copy of the two functions returns a remote-format date unchanged: three
  components under \<open>-\<close> and, as in every \<open>YYYY-MM-DD\<close> string, no slash inside.
\<close>

lemma later_copy_round_trips:
  assumes three: "length (split_js d ''-'') = 3"
    and noslash: "CHR ''/'' \<notin> set d"
  shows "convertDateFormatToGH (convertDateFormatToObsidian d) = d"
proof -
  from three obtain y m dd where parts: "split_js d ''-'' = [y, m, dd]"
    by (auto simp: length_Suc_conv numeral_3_eq_3)
  have "join_js ''-'' (split_js d ''-'') = d"
    by (rule join_split_js) simp
  with parts have d: "d = y @ ''-'' @ m @ ''-'' @ dd"
    by simp
  with noslash have ns: "CHR ''/'' \<notin> set m" "CHR ''/'' \<notin> set dd" "CHR ''/'' \<notin> set y"
    by auto
  have loc: "convertDateFormatToObsidian d = m @ ''/'' @ dd @ ''/'' @ y"
    using parts by (simp add: convertDateFormatToObsidian_def nth_opt_def str_of_def)
  have "split_js (m @ ''/'' @ dd @ ''/'' @ y) ''/'' = [m, dd, y]"
    using split_js_join3 [OF ns] by simp
  then have "convertDateFormatToGH (m @ ''/'' @ dd @ ''/'' @ y) = y @ ''-'' @ m @ ''-'' @ dd"
    by (simp add: convertDateFormatToGH_def nth_opt_def str_of_def)
  with loc d show ?thesis by simp
qed

text \<open>
  C6. Converting a remote-format date to the local format and back should return it. The
  earlier copy of convertDateFormatToObsidian (main.ts, lines 20 to 26) looks for slashes in
  the remote date, finds none and takes the whole date for the year: the date
  \<open>2024-01-02\<close> comes back as \<open>2024-01-02-undefined-undefined\<close>. The later copy, which
  splits on \<open>-\<close>, returns the same date unchanged.
\<close>

theorem earlier_copy_breaks_the_round_trip:
  "length (split_js ''2024-01-02'' ''-'') = 3 \<and>
   convertDateFormatToObsidian_first ''2024-01-02'' = ''undefined/undefined/2024-01-02'' \<and>
   convertDateFormatToGH (convertDateFormatToObsidian_first ''2024-01-02'') =
     ''2024-01-02-undefined-undefined'' \<and>
   convertDateFormatToGH (convertDateFormatToObsidian ''2024-01-02'') = ''2024-01-02''"
  by code_simp

section \<open>Date conversion on inputs without three components\<close>

lemma split_js_not_Nil: "sep \<noteq> [] \<Longrightarrow> split_js s sep \<noteq> []"
  by (simp add: split_js_def split_from_not_Nil)

lemma destructure_three:
  assumes "ps \<noteq> []"
  shows "\<exists>a b c. take 3 (ps @ [''undefined'', ''undefined'']) = [a, b, c] \<and>
           str_of (nth_opt ps 0) = a \<and> str_of (nth_opt ps 1) = b \<and> str_of (nth_opt ps 2) = c"
proof (cases ps)
  case Nil
  with assms show ?thesis by simp
next
  case (Cons a qs)
  note ps = this
  show ?thesis
  proof (cases qs)
    case Nil
    with ps show ?thesis by (simp add: nth_opt_def str_of_def)
  next
    case (Cons b rs)
    with ps show ?thesis
      by (cases rs) (simp_all add: nth_opt_def str_of_def)
  qed
qed

text \<open>
  C7 (amended). Neither conversion has a failing branch: for every input string each returns
  a string. The components of the split are padded with the text \<open>undefined\<close> up to three
  and cut after the third, and the result is rebuilt from these three.
\<close>

theorem date_conversions_always_return:
  "(\<exists>month day year.
      take 3 (split_js d ''/'' @ [''undefined'', ''undefined'']) = [month, day, year] \<and>
      convertDateFormatToGH d = year @ ''-'' @ month @ ''-'' @ day) \<and>
   (\<exists>year month day.
      take 3 (split_js d ''-'' @ [''undefined'', ''undefined'']) = [year, month, day] \<and>
      convertDateFormatToObsidian d = month @ ''/'' @ day @ ''/'' @ year)"
proof
  from destructure_three [of "split_js d ''/''"] split_js_not_Nil [of "''/''" d]
  show "\<exists>month day year.
      take 3 (split_js d ''/'' @ [''undefined'', ''undefined'']) = [month, day, year] \<and>
      convertDateFormatToGH d = year @ ''-'' @ month @ ''-'' @ day"
    by (auto simp: convertDateFormatToGH_def Let_def)
next
  from destructure_three [of "split_js d ''-''"] split_js_not_Nil [of "''-''" d]
  show "\<exists>year month day.
      take 3 (split_js d ''-'' @ [''undefined'', ''undefined'']) = [year, month, day] \<and>
      convertDateFormatToObsidian d = month @ ''/'' @ day @ ''/'' @ year"
    by (auto simp: convertDateFormatToObsidian_def Let_def)
qed

text \<open>
  C7 as stated fails: the one-component input \<open>2024\<close> makes both functions return a string.
\<close>

theorem date_conversions_fail_counterexample:
  "length (split_js ''2024'' ''/'') \<noteq> 3 \<and>
   convertDateFormatToGH ''2024'' = ''undefined-2024-undefined'' \<and>
   length (split_js ''2024'' ''-'') \<noteq> 3 \<and>
   convertDateFormatToObsidian ''2024'' = ''undefined/undefined/2024''"
  by (simp add: convertDateFormatToGH_def convertDateFormatToObsidian_def split_js_def
      nth_opt_def str_of_def)

section \<open>Requests issued by createOrUpdateLabels\<close>

lemma createOrUpdateLabels_loop_log:
  "\<exists>new. fst (createOrUpdateLabels_loop srv repoId ex names ids log) = log @ new \<and>
     (\<forall>r \<in> set new. \<exists>n \<in> set names. map_of ex n = None \<and> r = createRequest repoId n) \<and>
     ((\<exists>n \<in> set names. map_of ex n = None) \<longrightarrow> new \<noteq> []) \<and>
     (\<forall>out. snd (createOrUpdateLabels_loop srv repoId ex names ids log) = Inr out \<longrightarrow>
        (\<forall>n \<in> set names. map_of ex n = None \<longrightarrow> createRequest repoId n \<in> set new))"
proof (induction names arbitrary: ids log)
  case Nil
  show ?case by simp
next
  case (Cons n rest)
  show ?case
  proof (cases "map_of ex n")
    case (Some i)
    from Cons.IH [of "map_set ids n i" log] Some show ?thesis
      by auto
  next
    case None
    let ?req = "createRequest repoId n"
    show ?thesis
    proof (cases "srv log ?req")
      case (Inl e)
      with None show ?thesis
        by (simp add: executeGitHubGraphQL_def createRequest_def)
    next
      case (Inr resp)
      show ?thesis
      proof (cases "\<exists>i. resp = LabelCreated i")
        case False
        with None Inr show ?thesis
          by (cases resp) (simp_all add: executeGitHubGraphQL_def createRequest_def)
      next
        case True
        then obtain i where i: "resp = LabelCreated i" by blast
        from Cons.IH [of "map_set ids n i" "log @ [?req]"]
        obtain new where new:
          "fst (createOrUpdateLabels_loop srv repoId ex rest (map_set ids n i) (log @ [?req]))
             = (log @ [?req]) @ new"
          "\<forall>r \<in> set new. \<exists>n \<in> set rest. map_of ex n = None \<and> r = createRequest repoId n"
          "\<forall>out. snd (createOrUpdateLabels_loop srv repoId ex rest (map_set ids n i)
                         (log @ [?req])) = Inr out \<longrightarrow>
             (\<forall>n \<in> set rest. map_of ex n = None \<longrightarrow> createRequest repoId n \<in> set new)"
          by blast
        have step: "createOrUpdateLabels_loop srv repoId ex (n # rest) ids log =
              createOrUpdateLabels_loop srv repoId ex rest (map_set ids n i) (log @ [?req])"
          using None Inr i by (simp add: executeGitHubGraphQL_def createRequest_def)
        show ?thesis
          unfolding step
          apply (rule exI [of _ "?req # new"])
          using new None by auto
      qed
    qed
  qed
qed

lemma createOrUpdateLabels_loop_keys:
  "createOrUpdateLabels_loop srv repoId ex names ids log = (log', Inr out) \<Longrightarrow>
   fst ` set out = fst ` set ids \<union> set names"
proof (induction names arbitrary: ids log)
  case Nil
  then show ?case by simp
next
  case (Cons n rest)
  show ?case
  proof (cases "map_of ex n")
    case (Some i)
    with Cons.prems
    have "createOrUpdateLabels_loop srv repoId ex rest (map_set ids n i) log = (log', Inr out)"
      by simp
    from Cons.IH [OF this] show ?thesis
      by (simp add: map_set_keys)
  next
    case None
    with Cons.prems obtain i where
      "createOrUpdateLabels_loop srv repoId ex rest (map_set ids n i)
         (log @ [(CREATE_LABEL_MUTATION, createLabelVariables repoId n)]) = (log', Inr out)"
      by (auto simp: executeGitHubGraphQL_def split: sum.splits response.splits)
    from Cons.IH [OF this] show ?thesis
      by (simp add: map_set_keys)
  qed
qed

text \<open>The map returned by createOrUpdateLabels has exactly the requested names as keys.\<close>

lemma createOrUpdateLabels_keys:
  "createOrUpdateLabels srv repoId ex names log = (log', Inr labelIds) \<Longrightarrow>
   fst ` set labelIds = set names"
  using createOrUpdateLabels_loop_keys [of srv repoId ex names "[]" log log' labelIds]
  by (simp add: createOrUpdateLabels_def)

lemma createOrUpdateLabels_log:
  "\<exists>new. fst (createOrUpdateLabels srv repoId ex names log) = log @ new \<and>
     (\<forall>r \<in> set new. fst r = CREATE_LABEL_MUTATION)"
  using createOrUpdateLabels_loop_log [of srv repoId ex names "[]" log]
  unfolding createOrUpdateLabels_def createRequest_def by fastforce

lemma requiredVariables_create:
  "requiredVariables CREATE_LABEL_MUTATION = [''repositoryId'', ''name'', ''color'']"
  by (simp add: requiredVariables_def)

text \<open>
  C10. When a label name is absent from the known labels, createOrUpdateLabels issues
  requests, each of them a label creation for an absent name whose variables are
  \<open>repositoryId\<close>, \<open>name\<close> and \<open>description\<close>; when the call returns, the absent name has had
  its request. The variable \<open>color\<close>, declared non-nullable by the mutation, is not among
  the variables sent.
\<close>

theorem create_label_requests_omit_the_color:
  assumes "labelName \<in> set labelNames" and "map_of existingLabels labelName = None"
  shows "drop (length log) (fst (createOrUpdateLabels srv repoId existingLabels labelNames log)) \<noteq> [] \<and>
    (\<forall>r \<in> set (drop (length log)
                  (fst (createOrUpdateLabels srv repoId existingLabels labelNames log))).
       \<exists>n \<in> set labelNames. map_of existingLabels n = None \<and>
          r = (CREATE_LABEL_MUTATION, createLabelVariables repoId n)) \<and>
    (\<forall>labelIds. snd (createOrUpdateLabels srv repoId existingLabels labelNames log) = Inr labelIds \<longrightarrow>
       (CREATE_LABEL_MUTATION, createLabelVariables repoId labelName)
         \<in> set (drop (length log)
                  (fst (createOrUpdateLabels srv repoId existingLabels labelNames log)))) \<and>
    map fst (createLabelVariables repoId labelName) = [''repositoryId'', ''name'', ''description''] \<and>
    ''color'' \<in> set (requiredVariables CREATE_LABEL_MUTATION) \<and>
    ''color'' \<notin> set (map fst (createLabelVariables repoId labelName))"
proof -
  from createOrUpdateLabels_loop_log [of srv repoId existingLabels labelNames "[]" log]
  obtain new where new:
    "fst (createOrUpdateLabels srv repoId existingLabels labelNames log) = log @ new"
    "\<forall>r \<in> set new. \<exists>n \<in> set labelNames. map_of existingLabels n = None \<and> r = createRequest repoId n"
    "(\<exists>n \<in> set labelNames. map_of existingLabels n = None) \<longrightarrow> new \<noteq> []"
    "\<forall>out. snd (createOrUpdateLabels srv repoId existingLabels labelNames log) = Inr out \<longrightarrow>
        (\<forall>n \<in> set labelNames. map_of existingLabels n = None \<longrightarrow> createRequest repoId n \<in> set new)"
    unfolding createOrUpdateLabels_def by blast
  have d: "drop (length log) (fst (createOrUpdateLabels srv repoId existingLabels labelNames log)) = new"
    by (simp add: new(1))
  have keys: "map fst (createLabelVariables repoId labelName) = [''repositoryId'', ''name'', ''description'']"
    by (simp add: createLabelVariables_def)
  show ?thesis
    unfolding d keys using new(2-4) assms
    by (auto simp: requiredVariables_create createRequest_def)
qed

theorem create_label_requests_omit_the_color_witness:
  "''tag/x'' \<in> set [''tag/x''] \<and> map_of ([] :: (string \<times> string) list) ''tag/x'' = None \<and>
   drop (length ([] :: request list))
     (fst (createOrUpdateLabels (exampleServer []) ''R1'' [] [''tag/x''] [])) \<noteq> [] \<and>
   map fst (createLabelVariables ''R1'' ''tag/x'') = [''repositoryId'', ''name'', ''description''] \<and>
   ''color'' \<in> set (requiredVariables CREATE_LABEL_MUTATION) \<and>
   ''color'' \<notin> set (map fst (createLabelVariables ''R1'' ''tag/x''))"
proof -
  have h1: "''tag/x'' \<in> set [''tag/x'']"
    by simp
  have h2: "map_of ([] :: (string \<times> string) list) ''tag/x'' = None"
    by simp
  from create_label_requests_omit_the_color
         [OF h1 h2, of "[]" "exampleServer []" "''R1''"] h1 h2
  show ?thesis by blast
qed

section \<open>The label step of a matched pair\<close>

lemma existingLabelsToRemove_prefixed:
  "existingLabelsToRemove st nodes = map label_id (filter (prefixed st) nodes)"
  by (simp add: existingLabelsToRemove_def prefixed_def [abs_def])

lemma removed_iff_prefixed:
  assumes "inj_on label_id (set nodes)" "l \<in> set nodes"
  shows "label_id l \<in> set (existingLabelsToRemove st nodes) \<longleftrightarrow> prefixed st l"
  using assms by (auto simp: existingLabelsToRemove_prefixed dest: inj_onD)

lemma uploadLabels_prefixed:
  "n \<in> set (uploadLabels st fm) \<Longrightarrow> prefix (tagLabelPrefix st) n \<or> prefix (seriesLabelPrefix st) n"
  by (auto simp: uploadLabels_def split: option.splits if_splits)

text \<open>
  The requests of the step once the labels of the document are resolved and the remote end
  has reported the labels of the discussion: the query, a removal when some reported label
  has one of the prefixes, and, unless that removal is refused, an addition when the
  document has a label.
\<close>

lemma updateLabelsOfPost_log:
  assumes c: "createOrUpdateLabels srv repoId ex (uploadLabels st fm) log = (log1, Inr labelIds)"
    and q: "srv log1 (labelQuery post) = Inr (DiscussionLabels nodes)"
  shows "fst (updateLabelsOfPost srv st repoId ex fm post log) =
           log1 @ [labelQuery post] @
           (if existingLabelsToRemove st nodes = [] then [] else [removeRequest st post nodes]) @
           (if labelIds = [] \<or>
               (existingLabelsToRemove st nodes \<noteq> [] \<and>
                isl (srv (log1 @ [labelQuery post]) (removeRequest st post nodes)))
            then [] else [addRequest post labelIds])"
  using q
  by (simp add: updateLabelsOfPost_def c executeGitHubGraphQL_def removeRequest_def
      addRequest_def labelQuery_def split: sum.splits prod.splits)

lemma removedLabelIds_append:
  "removedLabelIds (xs @ ys) = removedLabelIds xs @ removedLabelIds ys"
  by (simp add: removedLabelIds_def)

lemma removedLabelIds_creations:
  "\<forall>r \<in> set new. fst r = CREATE_LABEL_MUTATION \<Longrightarrow> removedLabelIds new = []"
  by (induction new) (auto simp: removedLabelIds_def)

lemma removed_ids_of_label_step:
  assumes c: "createOrUpdateLabels srv repoId ex (uploadLabels st fm) log = (log1, Inr labelIds)"
    and q: "srv log1 (labelQuery post) = Inr (DiscussionLabels nodes)"
  shows "removedLabelIds (drop (length log) (fst (updateLabelsOfPost srv st repoId ex fm post log)))
           = existingLabelsToRemove st nodes"
proof -
  from createOrUpdateLabels_log [of srv repoId ex "uploadLabels st fm" log] c
  obtain new where new: "log1 = log @ new" "\<forall>r \<in> set new. fst r = CREATE_LABEL_MUTATION"
    by auto
  have "drop (length log) (fst (updateLabelsOfPost srv st repoId ex fm post log)) =
          new @ [labelQuery post] @
           (if existingLabelsToRemove st nodes = [] then [] else [removeRequest st post nodes]) @
           (if labelIds = [] \<or>
               (existingLabelsToRemove st nodes \<noteq> [] \<and>
                isl (srv (log1 @ [labelQuery post]) (removeRequest st post nodes)))
            then [] else [addRequest post labelIds])"
    unfolding updateLabelsOfPost_log [OF c q] by (simp add: new(1))
  then show ?thesis
    by (simp add: removedLabelIds_append removedLabelIds_creations [OF new(2)])
       (simp add: removedLabelIds_def labelQuery_def removeRequest_def addRequest_def)
qed

text \<open>Nothing is removed on the other paths of the step.\<close>

lemma removal_needs_resolved_labels_and_reported_labels:
  assumes "removedLabelIds (drop (length log)
             (fst (updateLabelsOfPost srv st repoId ex fm post log))) \<noteq> []"
  shows "\<exists>log1 labelIds nodes.
           createOrUpdateLabels srv repoId ex (uploadLabels st fm) log = (log1, Inr labelIds) \<and>
           srv log1 (labelQuery post) = Inr (DiscussionLabels nodes)"
proof -
  obtain log1 r1 where c: "createOrUpdateLabels srv repoId ex (uploadLabels st fm) log = (log1, r1)"
    by (cases "createOrUpdateLabels srv repoId ex (uploadLabels st fm) log")
  from createOrUpdateLabels_log [of srv repoId ex "uploadLabels st fm" log] c
  obtain new where new: "log1 = log @ new" "\<forall>r \<in> set new. fst r = CREATE_LABEL_MUTATION"
    by auto
  note rn = removedLabelIds_creations [OF new(2)]
  show ?thesis
  proof (cases r1)
    case (Inl e)
    with assms c new rn show ?thesis
      by (simp add: updateLabelsOfPost_def)
  next
    case (Inr labelIds)
    show ?thesis
    proof (cases "srv log1 (labelQuery post)")
      case (Inl e)
      with assms c new rn Inr show ?thesis
        by (simp add: updateLabelsOfPost_def executeGitHubGraphQL_def labelQuery_def
            removedLabelIds_append)
           (simp add: removedLabelIds_def)
    next
      case r: (Inr resp)
      show ?thesis
      proof (cases "\<exists>nodes. resp = DiscussionLabels nodes")
        case True
        with c Inr r show ?thesis by auto
      next
        case False
        with assms c new rn Inr r show ?thesis
          by (cases resp)
             (simp_all add: updateLabelsOfPost_def executeGitHubGraphQL_def labelQuery_def
                removedLabelIds_append removedLabelIds_def)
      qed
    qed
  qed
qed

text \<open>
  C1 (amended). In the label step of a matched pair (labels of the document resolved, labels
  of the discussion reported with pairwise different ids), a label of the discussion is
  listed in the removal that the step issues exactly when its name starts with the tag
  prefix or with the series prefix. Every other label of the discussion, a label named by
  the draft literal included, is listed in no removal of the step.
\<close>

theorem label_step_removes_exactly_the_prefixed_labels:
  assumes "createOrUpdateLabels srv repoId ex (uploadLabels st fm) log = (log1, Inr labelIds)"
    and "srv log1 (labelQuery post) = Inr (DiscussionLabels nodes)"
    and "inj_on label_id (set nodes)" and "l \<in> set nodes"
  shows "label_id l \<in> set (removedLabelIds (drop (length log)
                              (fst (updateLabelsOfPost srv st repoId ex fm post log)))) \<longleftrightarrow>
           prefix (tagLabelPrefix st) (label_name l) \<or>
           prefix (seriesLabelPrefix st) (label_name l)"
  unfolding removed_ids_of_label_step [OF assms(1,2)]
  using removed_iff_prefixed [OF assms(3,4), of st] by (simp add: prefixed_def)

theorem label_step_removes_exactly_the_prefixed_labels_witness:
  "createOrUpdateLabels (exampleServer exampleNodes) ''R1'' [(''tag/x'', ''L2'')]
     (uploadLabels exampleSettings publishedFrontMatter) [] = ([], Inr [(''tag/x'', ''L2'')]) \<and>
   exampleServer exampleNodes [] (labelQuery examplePost) = Inr (DiscussionLabels exampleNodes) \<and>
   inj_on label_id (set exampleNodes) \<and>
   \<lparr>label_id = ''L1'', label_name = ''state/draft''\<rparr> \<in> set exampleNodes \<and>
   label_id \<lparr>label_id = ''L1'', label_name = ''state/draft''\<rparr>
     \<notin> set (removedLabelIds (drop (length ([] :: request list))
              (fst (updateLabelsOfPost (exampleServer exampleNodes) exampleSettings ''R1''
                     [(''tag/x'', ''L2'')] publishedFrontMatter examplePost []))))"
proof -
  let ?l = "\<lparr>label_id = ''L1'', label_name = ''state/draft''\<rparr>"
  have c: "createOrUpdateLabels (exampleServer exampleNodes) ''R1'' [(''tag/x'', ''L2'')]
     (uploadLabels exampleSettings publishedFrontMatter) [] = ([], Inr [(''tag/x'', ''L2'')])"
    by code_simp
  have q: "exampleServer exampleNodes [] (labelQuery examplePost)
             = Inr (DiscussionLabels exampleNodes)"
    by (simp add: exampleServer_def labelQuery_def)
  have h1: "inj_on label_id (set exampleNodes)"
    by (simp add: exampleNodes_def)
  have h2: "?l \<in> set exampleNodes"
    by (simp add: exampleNodes_def)
  have n1: "\<not> prefix (tagLabelPrefix exampleSettings) (label_name ?l)"
    by (simp add: exampleSettings_def DEFAULT_SETTINGS_def)
  have n2: "\<not> prefix (seriesLabelPrefix exampleSettings) (label_name ?l)"
    by (simp add: exampleSettings_def DEFAULT_SETTINGS_def)
  from label_step_removes_exactly_the_prefixed_labels [OF c q h1 h2] n1 n2 c q h1 h2
  show ?thesis by blast
qed

text \<open>
  C1 as stated fails: the document is not a draft and its only label is that of the tag
  \<open>x\<close>, the discussion carries the draft label, and the step issues no removal; it reads the
  labels and adds the label of the tag.
\<close>

theorem draft_label_is_no_removal_candidate_counterexample:
  "draft publishedFrontMatter = Some False \<and>
   uploadLabels exampleSettings publishedFrontMatter = [''tag/x''] \<and>
   draftLabel exampleSettings = ''state/draft'' \<and>
   updateLabelsOfPost
     (exampleServer [\<lparr>label_id = ''L1'', label_name = ''state/draft''\<rparr>])
     exampleSettings ''R1'' [(''tag/x'', ''L2'')] publishedFrontMatter examplePost [] =
     ([(GetDiscussionLabels, [(''id'', JStr ''D1'')]),
       (ADD_LABELS_TO_DISCUSSION,
        [(''labelableId'', JStr ''D1''), (''labelIds'', JList [''L2''])])],
      Inr ())"
  by code_simp

text \<open>
  C3 (amended). Every application of the label step in which the labels of the document are
  resolved and the labels of the discussion are reported, a second application with the
  same document included, issues the query, then a removal of all reported labels with one
  of the prefixes when there is one, then, unless that removal is refused, an addition of
  all labels of the document when there is one. A discussion that carries a label of the
  document therefore gets a removal again.
\<close>

theorem label_step_issues_its_mutations_at_every_application:
  assumes c: "createOrUpdateLabels srv repoId ex (uploadLabels st fm) log = (log1, Inr labelIds)"
    and q: "srv log1 (labelQuery post) = Inr (DiscussionLabels nodes)"
  shows "fst (updateLabelsOfPost srv st repoId ex fm post log) =
           log1 @ [labelQuery post] @
           (if existingLabelsToRemove st nodes = [] then [] else [removeRequest st post nodes]) @
           (if labelIds = [] \<or>
               (existingLabelsToRemove st nodes \<noteq> [] \<and>
                isl (srv (log1 @ [labelQuery post]) (removeRequest st post nodes)))
            then [] else [addRequest post labelIds]) \<and>
         (labelIds = [] \<longleftrightarrow> uploadLabels st fm = []) \<and>
         ((\<exists>l \<in> set nodes. label_name l \<in> set (uploadLabels st fm)) \<longrightarrow>
            existingLabelsToRemove st nodes \<noteq> [])"
proof -
  from createOrUpdateLabels_keys [OF c]
  have keys: "labelIds = [] \<longleftrightarrow> uploadLabels st fm = []"
    by auto
  have "existingLabelsToRemove st nodes \<noteq> []"
    if "l \<in> set nodes" "label_name l \<in> set (uploadLabels st fm)" for l
  proof -
    from that(2) have "prefixed st l"
      using uploadLabels_prefixed [of "label_name l" st fm] by (simp add: prefixed_def)
    with that(1) show ?thesis
      by (auto simp: existingLabelsToRemove_prefixed filter_empty_conv)
  qed
  with updateLabelsOfPost_log [OF c q] keys show ?thesis
    by blast
qed

theorem label_step_issues_its_mutations_at_every_application_witness:
  "createOrUpdateLabels (exampleServer syncedNodes) ''R1'' [(''tag/x'', ''L2'')]
     (uploadLabels exampleSettings publishedFrontMatter) [] = ([], Inr [(''tag/x'', ''L2'')]) \<and>
   exampleServer syncedNodes [] (labelQuery examplePost) = Inr (DiscussionLabels syncedNodes) \<and>
   fst (updateLabelsOfPost (exampleServer syncedNodes) exampleSettings ''R1''
          [(''tag/x'', ''L2'')] publishedFrontMatter examplePost []) =
     [labelQuery examplePost, removeRequest exampleSettings examplePost syncedNodes,
      addRequest examplePost [(''tag/x'', ''L2'')]]"
proof -
  have c: "createOrUpdateLabels (exampleServer syncedNodes) ''R1'' [(''tag/x'', ''L2'')]
     (uploadLabels exampleSettings publishedFrontMatter) [] = ([], Inr [(''tag/x'', ''L2'')])"
    by code_simp
  have q: "exampleServer syncedNodes [] (labelQuery examplePost)
             = Inr (DiscussionLabels syncedNodes)"
    by (simp add: exampleServer_def labelQuery_def)
  have e: "existingLabelsToRemove exampleSettings syncedNodes \<noteq> []"
    by code_simp
  have ok: "\<not> isl (exampleServer syncedNodes ([] @ [labelQuery examplePost])
                     (removeRequest exampleSettings examplePost syncedNodes))"
    by (simp add: exampleServer_def removeRequest_def)
  from label_step_issues_its_mutations_at_every_application [OF c q]
  have "fst (updateLabelsOfPost (exampleServer syncedNodes) exampleSettings ''R1''
          [(''tag/x'', ''L2'')] publishedFrontMatter examplePost []) =
     [] @ [labelQuery examplePost] @
       (if existingLabelsToRemove exampleSettings syncedNodes = [] then []
        else [removeRequest exampleSettings examplePost syncedNodes]) @
       (if [(''tag/x'', ''L2'')] = ([] :: (string \<times> string) list) \<or>
           (existingLabelsToRemove exampleSettings syncedNodes \<noteq> [] \<and>
            isl (exampleServer syncedNodes ([] @ [labelQuery examplePost])
                   (removeRequest exampleSettings examplePost syncedNodes)))
        then [] else [addRequest examplePost [(''tag/x'', ''L2'')]])"
    by blast
  with e ok have "fst (updateLabelsOfPost (exampleServer syncedNodes) exampleSettings ''R1''
          [(''tag/x'', ''L2'')] publishedFrontMatter examplePost []) =
     [labelQuery examplePost, removeRequest exampleSettings examplePost syncedNodes,
      addRequest examplePost [(''tag/x'', ''L2'')]]"
    by simp
  with c q show ?thesis by blast
qed

text \<open>
  C3 as stated fails: the discussion carries exactly the label of the document besides an
  unrelated one, so nothing is to be added or removed. Two applications in a row, with no
  change of the document, each issue a removal and an addition of that label.
\<close>

theorem second_label_step_issues_mutations_counterexample:
  "uploadLabels exampleSettings publishedFrontMatter = [''tag/x''] \<and>
   map label_name syncedNodes = [''area/infra'', ''tag/x''] \<and>
   fst (updateLabelsOfPost (exampleServer syncedNodes) exampleSettings ''R1''
          [(''tag/x'', ''L2'')] publishedFrontMatter examplePost
          (fst (updateLabelsOfPost (exampleServer syncedNodes) exampleSettings ''R1''
                  [(''tag/x'', ''L2'')] publishedFrontMatter examplePost []))) =
     [(GetDiscussionLabels, [(''id'', JStr ''D1'')]),
      (RemoveLabels, [(''labelableId'', JStr ''D1''), (''labelIds'', JList [''L2''])]),
      (ADD_LABELS_TO_DISCUSSION,
       [(''labelableId'', JStr ''D1''), (''labelIds'', JList [''L2''])]),
      (GetDiscussionLabels, [(''id'', JStr ''D1'')]),
      (RemoveLabels, [(''labelableId'', JStr ''D1''), (''labelIds'', JList [''L2''])]),
      (ADD_LABELS_TO_DISCUSSION,
       [(''labelableId'', JStr ''D1''), (''labelIds'', JList [''L2''])])]"
  by code_simp

text \<open>
  C8 (amended). The labels rendered for a document are the tag prefix followed by each tag
  and, for a non-empty series, the series prefix followed by the series, and nothing else.
  They do not depend on the draft state, and when the draft label starts with neither
  prefix it is not among them, whatever the draft state is.
\<close>

theorem upload_labels_are_the_tags_and_the_series_only:
  "set (uploadLabels st fm) =
     (\<lambda>tag. tagLabelPrefix st @ tag) ` (case tags fm of None \<Rightarrow> {} | Some ts \<Rightarrow> set ts) \<union>
     (case series fm of
        None \<Rightarrow> {}
      | Some s \<Rightarrow> if s = [] then {} else {seriesLabelPrefix st @ s}) \<and>
   uploadLabels st (fm\<lparr>draft := d\<rparr>) = uploadLabels st fm \<and>
   (\<not> prefix (tagLabelPrefix st) (draftLabel st) \<and>
    \<not> prefix (seriesLabelPrefix st) (draftLabel st) \<longrightarrow>
      draftLabel st \<notin> set (uploadLabels st fm))"
proof -
  have "set (uploadLabels st fm) =
           (\<lambda>tag. tagLabelPrefix st @ tag) ` (case tags fm of None \<Rightarrow> {} | Some ts \<Rightarrow> set ts) \<union>
           (case series fm of
              None \<Rightarrow> {}
            | Some s \<Rightarrow> if s = [] then {} else {seriesLabelPrefix st @ s})"
    by (auto simp: uploadLabels_def truthy_def str_of_def split: option.splits)
  moreover have "uploadLabels st (fm\<lparr>draft := d\<rparr>) = uploadLabels st fm"
    by (simp add: uploadLabels_def)
  moreover have "draftLabel st \<notin> set (uploadLabels st fm)"
    if "\<not> prefix (tagLabelPrefix st) (draftLabel st)"
      and "\<not> prefix (seriesLabelPrefix st) (draftLabel st)"
    using that uploadLabels_prefixed [of "draftLabel st" st fm] by blast
  ultimately show ?thesis by blast
qed

theorem upload_labels_are_the_tags_and_the_series_only_witness:
  "\<not> prefix (tagLabelPrefix exampleSettings) (draftLabel exampleSettings) \<and>
   \<not> prefix (seriesLabelPrefix exampleSettings) (draftLabel exampleSettings) \<and>
   set (uploadLabels exampleSettings exampleFrontMatter) = {''tag/x''} \<and>
   draftLabel exampleSettings \<notin> set (uploadLabels exampleSettings exampleFrontMatter) \<and>
   uploadLabels exampleSettings (exampleFrontMatter\<lparr>draft := Some False\<rparr>) =
     uploadLabels exampleSettings exampleFrontMatter"
proof -
  have h1: "\<not> prefix (tagLabelPrefix exampleSettings) (draftLabel exampleSettings)"
    by (simp add: exampleSettings_def DEFAULT_SETTINGS_def)
  have h2: "\<not> prefix (seriesLabelPrefix exampleSettings) (draftLabel exampleSettings)"
    by (simp add: exampleSettings_def DEFAULT_SETTINGS_def)
  note t = upload_labels_are_the_tags_and_the_series_only
             [of exampleSettings exampleFrontMatter "Some False"]
  from t have "set (uploadLabels exampleSettings exampleFrontMatter) =
           (\<lambda>tag. tagLabelPrefix exampleSettings @ tag) `
             (case tags exampleFrontMatter of None \<Rightarrow> {} | Some ts \<Rightarrow> set ts) \<union>
           (case series exampleFrontMatter of
              None \<Rightarrow> {}
            | Some s \<Rightarrow> if s = [] then {} else {seriesLabelPrefix exampleSettings @ s})"
    by blast
  then have "set (uploadLabels exampleSettings exampleFrontMatter) = {''tag/x''}"
    by (simp add: exampleFrontMatter_def exampleSettings_def DEFAULT_SETTINGS_def)
  with t h1 h2 show ?thesis by blast
qed

text \<open>
  C8 as stated fails: a document in draft state with the tag \<open>x\<close> is rendered to the single
  label of the tag, without the draft label.
\<close>

theorem draft_document_without_draft_label_counterexample:
  "draft exampleFrontMatter = Some True \<and>
   draftLabel exampleSettings = ''state/draft'' \<and>
   uploadLabels exampleSettings exampleFrontMatter = [''tag/x'']"
  by code_simp

section \<open>The upload handler without the configured category\<close>

text \<open>
  C9. When no discussion category of the repository has the configured name, the handler
  stops after the repository query: this query is the only request of the run and no
  mutation is issued.
\<close>

theorem upload_aborts_when_the_category_is_missing:
  assumes "srv log (GET_REPOSITORY_INFO, [(''owner'', JStr (owner st)), (''name'', JStr (repo st))])
             = Inr (RepoInfoR info)"
    and "\<forall>cat \<in> set (discussionCategories info). cat_name cat \<noteq> blogPostCategory st"
  shows "upload srv parseYaml stringifyYaml st passing fetched files ans log =
           (if passing
            then (log @ [(GET_REPOSITORY_INFO,
                          [(''owner'', JStr (owner st)), (''name'', JStr (repo st))])],
                  CategoryNotFound)
            else (log, SettingsNotPassing)) \<and>
         \<not> isMutation GET_REPOSITORY_INFO"
proof -
  from assms(2)
  have "find (\<lambda>cat. cat_name cat = blogPostCategory st) (discussionCategories info) = None"
    by (simp add: find_None_iff)
  with assms(1) show ?thesis
    by (simp add: upload_def executeGitHubGraphQL_def truthy_def)
qed

theorem upload_aborts_when_the_category_is_missing_witness:
  "exampleServer [] []
     (GET_REPOSITORY_INFO,
      [(''owner'', JStr (owner otherCategorySettings)), (''name'', JStr (repo otherCategorySettings))])
     = Inr (RepoInfoR exampleRepoInfo) \<and>
   upload (exampleServer []) exampleParser examplePrinter otherCategorySettings True
     (Inr [examplePost]) [exampleFile, secondFile] allAnswers [] =
     (if True
      then ([] @ [(GET_REPOSITORY_INFO,
                   [(''owner'', JStr (owner otherCategorySettings)),
                    (''name'', JStr (repo otherCategorySettings))])],
            CategoryNotFound)
      else ([], SettingsNotPassing))"
proof -
  have h1: "exampleServer [] []
     (GET_REPOSITORY_INFO,
      [(''owner'', JStr (owner otherCategorySettings)), (''name'', JStr (repo otherCategorySettings))])
     = Inr (RepoInfoR exampleRepoInfo)"
    by (simp add: exampleServer_def)
  have h2: "\<forall>cat \<in> set (discussionCategories exampleRepoInfo).
      cat_name cat \<noteq> blogPostCategory otherCategorySettings"
    by (simp add: exampleRepoInfo_def otherCategorySettings_def)
  from upload_aborts_when_the_category_is_missing
         [where srv = "exampleServer []" and log = "[]" and st = otherCategorySettings
            and info = exampleRepoInfo and parseYaml = exampleParser
            and stringifyYaml = examplePrinter and passing = True
            and fetched = "Inr [examplePost]" and files = "[exampleFile, secondFile]"
            and ans = allAnswers, OF h1 h2] h1 h2
  show ?thesis by blast
qed

section \<open>Two documents with the same new label\<close>

lemma create_request_is_repeated:
  assumes "map_of ex n = None"
  shows "fst (createOrUpdateLabels srv repoId ex [n] (log @ [createRequest repoId n])) =
           log @ [createRequest repoId n, createRequest repoId n]"
  using assms
  by (simp add: createOrUpdateLabels_def executeGitHubGraphQL_def createRequest_def
      split: sum.splits response.splits)

text \<open>
  C4. Two new documents carry the tag \<open>x\<close> and the repository has no label. The run creates
  the label for the first document and asks for the same creation again for the second:
  the known labels are not extended between the two documents. With a remote end that
  rejects the second creation, the second document is not published.
\<close>

theorem same_new_label_is_created_twice:
  "upload (exampleServer []) exampleParser examplePrinter exampleSettings True (Inr [])
     [exampleFile, secondFile] allAnswers [] =
   ([(GET_REPOSITORY_INFO, [(''owner'', JStr ''octo''), (''name'', JStr ''blog'')]),
     (CREATE_LABEL_MUTATION,
      [(''repositoryId'', JStr ''R1''), (''name'', JStr ''tag/x''), (''description'', JUndefined)]),
     (CREATE_DISCUSSION_MUTATION,
      [(''repositoryId'', JStr ''R1''), (''categoryId'', JStr ''C1''), (''title'', JStr ''Hello''),
       (''body'', JStr ''---\<newline>slug: a\<newline>description: new\<newline>published: 2024-01-02\<newline>---\<newline>new text'')]),
     (ADD_LABELS_TO_DISCUSSION,
      [(''labelableId'', JStr ''D9''), (''labelIds'', JList [''L+''])]),
     (CREATE_LABEL_MUTATION,
      [(''repositoryId'', JStr ''R1''), (''name'', JStr ''tag/x''), (''description'', JUndefined)])],
    Prompted (Some (Inl (RequestError ''Name has already been taken''))) None None)"
  by code_simp

section \<open>Matching by slug\<close>









section \<open>The content step\<close>









end
